theory Spec2Isabelle
  imports Main
begin

section \<open>Dates, times and strings\<close>

text \<open>
  A calendar date (\<open>datetime.date\<close>) is represented by its proleptic Gregorian ordinal
  (\<open>date.toordinal()\<close>), so that \<open>d + timedelta(days=1)\<close> is \<open>d + 1\<close> and
  \<open>d.weekday()\<close> is \<open>(d + 6) mod 7\<close> (Monday is 0, Sunday is 6; ordinal 1 is Monday,
  1 January of year 1). The upper end of Python's date range (year 9999) is not modelled.
  A naive \<open>datetime.datetime\<close> with hour and minute is the number of minutes since
  midnight of ordinal 0. The scripts send the same wall-clock value once with the suffix
  \<open>Z\<close> (queries) and once with the zone \<open>Europe/London\<close> (new events); the model
  identifies the two clocks, as is the case on every date of the fixed schedules
  (6 January to 28 March 2025, all in Greenwich Mean Time).
\<close>

type_synonym date = int
type_synonym datetime = int

definition weekday :: "date \<Rightarrow> int" where
  "weekday d = (d + 6) mod 7"

definition dt :: "date \<Rightarrow> int \<Rightarrow> int \<Rightarrow> datetime" where
  "dt d hour minute = d * 1440 + hour * 60 + minute"

text \<open>
  \<open>str.lower()\<close> on the ASCII letters; every other character is left as it is. No
  theorem below depends on which characters are folded.
\<close>

definition lower_char :: "char \<Rightarrow> char" where
  "lower_char c =
     (case map_of (zip ''ABCDEFGHIJKLMNOPQRSTUVWXYZ'' ''abcdefghijklmnopqrstuvwxyz'') c of
        Some l \<Rightarrow> l
      | None \<Rightarrow> c)"

definition lower :: "string \<Rightarrow> string" where
  "lower s = map lower_char s"

section \<open>Events and the Calendar Service\<close>

text \<open>
  An event resource as the service returns it. The key \<open>summary\<close> may be absent (the
  scripts read it with \<open>evt.get('summary', '')\<close>), and so may \<open>description\<close>;
  \<open>other\<close> holds every key the scripts never look at (attendees, location, links).
\<close>

record event =
  ev_id :: nat
  summary :: "string option"
  description :: "string option"
  ev_start :: datetime
  ev_end :: datetime
  other :: "(string \<times> string) list"

text \<open>The \<open>event_body\<close> dictionary built by \<open>create_event\<close>.\<close>

record event_body =
  body_summary :: string
  body_description :: string
  body_start :: datetime
  body_end :: datetime
  body_time_zone :: string

text \<open>
  The four requests the scripts make, \<open>service.events().list/insert/update/delete\<close>,
  and what \<open>execute()\<close> gives back: a response or a raised error. A service is any
  function from a request and its own state to a result and a new state.
\<close>

datatype call =
    EventsList datetime datetime string
  | EventsInsert event_body
  | EventsUpdate nat event
  | EventsDelete nat

datatype reply = Items "event list" | Resource event | NoContent

datatype error = HttpError nat | KeyError

type_synonym 'c service = "call \<Rightarrow> 'c \<Rightarrow> (error + reply) \<times> 'c"

text \<open>What a script prints after a successful request, and at the end of \<open>main\<close>.\<close>

datatype line = UPDATED | CREATED | DELETED string nat | ALL_DONE

text \<open>
  The world a script runs in: the state behind the service, the requests sent so far
  and the lines printed so far. \<open>placed\<close> is a history variable that only the
  three-week script writes: which plan item its loop put on which date.
\<close>

record 'c world =
  remote :: 'c
  calls :: "call list"
  printed :: "line list"
  placed :: "(nat \<times> date) list"

definition request :: "'c service \<Rightarrow> call \<Rightarrow> 'c world \<Rightarrow> (error + reply) \<times> 'c world" where
  "request svc c w =
     (case svc c (remote w) of
        (r, st) \<Rightarrow> (r, w\<lparr>remote := st, calls := calls w @ [c]\<rparr>))"

definition print :: "line \<Rightarrow> 'c world \<Rightarrow> 'c world" where
  "print l w = w\<lparr>printed := printed w @ [l]\<rparr>"

text \<open>\<open>events_result.get('items', [])\<close> and \<open>evt.get('summary', '')\<close>.\<close>

definition get_items :: "reply \<Rightarrow> event list" where
  "get_items r = (case r of Items xs \<Rightarrow> xs | _ \<Rightarrow> [])"

definition get_summary :: "event \<Rightarrow> string" where
  "get_summary evt = (case summary evt of Some s \<Rightarrow> s | None \<Rightarrow> [])"

section \<open>The helpers of the update scripts\<close>

text \<open>
  \<open>find_event_by_summary_in_range\<close>, the same text in \<open>update_deep_work_jan_2025.py\<close>
  and \<open>update_deep_work_3week_plan.py\<close>: one list request, then the first listed event
  whose lowered summary equals the lowered argument.
\<close>

definition find_event_by_summary_in_range ::
  "'c service \<Rightarrow> string \<Rightarrow> datetime \<Rightarrow> datetime \<Rightarrow> 'c world \<Rightarrow> (error + event option) \<times> 'c world" where
  "find_event_by_summary_in_range svc summ start_dt end_dt w =
     (case request svc (EventsList start_dt end_dt summ) w of
        (Inl e, w') \<Rightarrow> (Inl e, w')
      | (Inr events_result, w') \<Rightarrow>
          (Inr (List.find (\<lambda>evt. lower (get_summary evt) = lower summ) (get_items events_result)), w'))"

text \<open>
  \<open>update_event_description\<close>: the event as found, with its \<open>description\<close> key
  overwritten, is sent back under its own id.
\<close>

definition update_event_description ::
  "'c service \<Rightarrow> event \<Rightarrow> string \<Rightarrow> 'c world \<Rightarrow> (error + unit) \<times> 'c world" where
  "update_event_description svc event_data new_description w =
     (case request svc
             (EventsUpdate (ev_id event_data) (event_data\<lparr>description := Some new_description\<rparr>)) w of
        (Inl e, w') \<Rightarrow> (Inl e, w')
      | (Inr updated_event, w') \<Rightarrow> (Inr (), print UPDATED w'))"

text \<open>\<open>create_event\<close>, the same in the three update scripts up to the printed text.\<close>

definition create_event ::
  "'c service \<Rightarrow> string \<Rightarrow> datetime \<Rightarrow> datetime \<Rightarrow> string \<Rightarrow> 'c world \<Rightarrow> (error + unit) \<times> 'c world" where
  "create_event svc summ start_dt end_dt descr w =
     (case request svc
             (EventsInsert \<lparr>body_summary = summ, body_description = descr,
                body_start = start_dt, body_end = end_dt,
                body_time_zone = ''Europe/London''\<rparr>) w of
        (Inl e, w') \<Rightarrow> (Inl e, w')
      | (Inr created, w') \<Rightarrow> (Inr (), print CREATED w'))"

text \<open>
  The stanza that both Deep Work scripts repeat for each block inside \<open>main\<close>: find,
  then update if something was found and create otherwise. An event returned by the
  service is a dictionary with at least its id, so \<open>if existing_b1:\<close> tests for
  \<open>None\<close> only.
\<close>

definition handle_block ::
  "'c service \<Rightarrow> string \<Rightarrow> datetime \<Rightarrow> datetime \<Rightarrow> string \<Rightarrow> 'c world \<Rightarrow> (error + unit) \<times> 'c world" where
  "handle_block svc summ start_dt end_dt descr w =
     (case find_event_by_summary_in_range svc summ start_dt end_dt w of
        (Inl e, w') \<Rightarrow> (Inl e, w')
      | (Inr (Some existing), w') \<Rightarrow> update_event_description svc existing descr w'
      | (Inr None, w') \<Rightarrow> create_event svc summ start_dt end_dt descr w')"

section \<open>add_january_events.py\<close>

text \<open>The event dictionaries of the January script: summary, start, end, description.\<close>

record event_data =
  ed_summary :: string
  ed_start :: datetime
  ed_end :: datetime
  ed_description :: string

text \<open>The dictionary \<open>WEEKDAY_FOCUS\<close>, with keys 0 to 6.\<close>

definition WEEKDAY_FOCUS :: "int \<Rightarrow> string option" where
  "WEEKDAY_FOCUS k =
     (if k = 0 then Some ''Focus: Week Agenda & Planning (Monday)''
      else if k = 1 then Some ''Focus: Product/Service Development (Tuesday)''
      else if k = 2 then Some ''Focus: Networking & Marketing (Wednesday)''
      else if k = 3 then Some ''Focus: Admin & Finances (Thursday)''
      else if k = 4 then Some ''Focus: Weekly Review & Wrap-Up (Friday)''
      else if k = 5 then Some ''Focus: Big-Picture Thinking (Saturday)''
      else if k = 6 then Some ''Focus: Rest & Reflection (Sunday)''
      else None)"

text \<open>
  \<open>weekday_schedule(year, month, day, weekday)\<close>; the three date arguments are only
  passed on to \<open>dt\<close>, so they are the one argument \<open>day\<close> here.
\<close>

definition weekday_schedule :: "date \<Rightarrow> int \<Rightarrow> event_data list" where
  "weekday_schedule day wd =
     (if 0 \<le> wd \<and> wd \<le> 4 then
        [\<lparr>ed_summary = ''Morning Routine'', ed_start = dt day 6 0, ed_end = dt day 7 0,
          ed_description = ''Wake up, light exercise, shower, breakfast.''\<rparr>,
        \<lparr>ed_summary = ''Planning & Admin'', ed_start = dt day 7 0, ed_end = dt day 8 0,
          ed_description = ''Check emails, review calendar, daily priorities.''\<rparr>,
        \<lparr>ed_summary = ''Deep Work Block 1'', ed_start = dt day 8 0, ed_end = dt day 10 0,
          ed_description = ''High-focus tasks (strategy, development).''\<rparr>,
        \<lparr>ed_summary = ''Break'', ed_start = dt day 10 0, ed_end = dt day 10 30,
          ed_description = ''Hydration, quick walk, snack.''\<rparr>,
        \<lparr>ed_summary = ''Deep Work Block 2'', ed_start = dt day 10 30, ed_end = dt day 12 30,
          ed_description = ''Follow-ups, calls, business strategy.''\<rparr>,
        \<lparr>ed_summary = ''Lunch Break'', ed_start = dt day 12 30, ed_end = dt day 13 30,
          ed_description = ''Lunch and short rest.''\<rparr>,
        \<lparr>ed_summary = ''Operational Work'', ed_start = dt day 13 30, ed_end = dt day 15 30,
          ed_description = ''Admin tasks, scheduling, finances.''\<rparr>,
        \<lparr>ed_summary = ''Break'', ed_start = dt day 15 30, ed_end = dt day 16 0,
          ed_description = ''Hydration, check messages.''\<rparr>,
        \<lparr>ed_summary = ''Marketing & Outreach'', ed_start = dt day 16 0, ed_end = dt day 18 0,
          ed_description = ''Networking, contacting leads/partners, social media.''\<rparr>,
        \<lparr>ed_summary = ''Wrap-Up & Personal Time'', ed_start = dt day 18 0, ed_end = dt day 19 0,
          ed_description = ''Review day, finalize tasks, short break.''\<rparr>,
        \<lparr>ed_summary = ''Family/Personal'', ed_start = dt day 19 0, ed_end = dt day 20 0,
          ed_description = ''Dinner, relax, personal hobbies.''\<rparr>,
        \<lparr>ed_summary = ''Optional Work/Study'', ed_start = dt day 20 0, ed_end = dt day 21 0,
          ed_description = ''Light tasks, reading, or wind down.''\<rparr>,
        \<lparr>ed_summary = ''Wind Down'', ed_start = dt day 21 0, ed_end = dt day 22 0,
          ed_description = ''Relaxation, reflection, prep for sleep.''\<rparr>]
      else if wd = 5 then
        [\<lparr>ed_summary = ''Late Morning Start'', ed_start = dt day 8 0, ed_end = dt day 9 0,
          ed_description = ''Slightly slower morning routine on Saturday.''\<rparr>,
        \<lparr>ed_summary = ''Big-Picture Planning'', ed_start = dt day 9 0, ed_end = dt day 11 0,
          ed_description = ''Industry reading, brainstorming, strategy.''\<rparr>,
        \<lparr>ed_summary = ''Family/Personal Time'', ed_start = dt day 11 0, ed_end = dt day 14 0,
          ed_description = ''Lunch, hobbies, relaxation.''\<rparr>,
        \<lparr>ed_summary = ''Creative Brainstorm Session'', ed_start = dt day 14 0, ed_end = dt day 16 0,
          ed_description = ''Think about new product ideas or improvement.''\<rparr>,
        \<lparr>ed_summary = ''Short Work Session (Optional)'', ed_start = dt day 16 0, ed_end = dt day 18 0,
          ed_description = ''Tie up loose ends if needed.''\<rparr>,
        \<lparr>ed_summary = ''Evening Relaxation'', ed_start = dt day 18 0, ed_end = dt day 20 0,
          ed_description = ''Dinner, time with family/friends.''\<rparr>,
        \<lparr>ed_summary = ''Light Review'', ed_start = dt day 20 0, ed_end = dt day 21 0,
          ed_description = ''Optional reflection on the week.''\<rparr>]
      else
        [\<lparr>ed_summary = ''Rest & Leisure'', ed_start = dt day 9 0, ed_end = dt day 12 0,
          ed_description = ''Sleep in, family time, minimal to-do.''\<rparr>,
        \<lparr>ed_summary = ''Personal / Family Time'', ed_start = dt day 12 0, ed_end = dt day 18 0,
          ed_description = ''Relax, hobbies, no major work.''\<rparr>,
        \<lparr>ed_summary = ''Light Weekly Planning'', ed_start = dt day 18 0, ed_end = dt day 19 0,
          ed_description = ''Short session to prep for Monday.''\<rparr>])"

text \<open>
  Step A of \<open>main\<close>: the \<open>while start_date <= end_date\<close> loop that fills
  \<open>all_events\<close>. A missing key of \<open>WEEKDAY_FOCUS\<close> would raise.
\<close>

function build_all_events :: "date \<Rightarrow> date \<Rightarrow> event_data list \<Rightarrow> error + event_data list" where
  "build_all_events start_date end_date all_events =
     (if start_date \<le> end_date then
        (case WEEKDAY_FOCUS (weekday start_date) of
           None \<Rightarrow> Inl KeyError
         | Some focus_text \<Rightarrow>
             build_all_events (start_date + 1) end_date
               (all_events @
                  (\<lparr>ed_summary = focus_text, ed_start = dt start_date 0 0,
                    ed_end = dt start_date 0 15,
                    ed_description = ''Daily Theme: '' @ focus_text\<rparr>
                   # weekday_schedule start_date (weekday start_date))))
      else Inr all_events)"
  by pat_completeness auto
termination
  by (relation "measure (\<lambda>(start_date, end_date, all_events). nat (end_date + 1 - start_date))") auto

declare build_all_events.simps [simp del]

text \<open>\<open>add_event_to_google_calendar\<close>.\<close>

definition add_event_to_google_calendar ::
  "'c service \<Rightarrow> event_data \<Rightarrow> 'c world \<Rightarrow> (error + unit) \<times> 'c world" where
  "add_event_to_google_calendar svc event_data w =
     (case request svc
             (EventsInsert \<lparr>body_summary = ed_summary event_data,
                body_description = ed_description event_data,
                body_start = ed_start event_data, body_end = ed_end event_data,
                body_time_zone = ''Europe/London''\<rparr>) w of
        (Inl e, w') \<Rightarrow> (Inl e, w')
      | (Inr created_event, w') \<Rightarrow> (Inr (), print CREATED w'))"

text \<open>Step C of \<open>main\<close>: \<open>for event_data in all_events\<close>.\<close>

fun insert_all :: "'c service \<Rightarrow> event_data list \<Rightarrow> 'c world \<Rightarrow> (error + unit) \<times> 'c world" where
  "insert_all svc [] w = (Inr (), w)"
| "insert_all svc (event_data # rest) w =
     (case add_event_to_google_calendar svc event_data w of
        (Inl e, w') \<Rightarrow> (Inl e, w')
      | (Inr _, w') \<Rightarrow> insert_all svc rest w')"

text \<open>
  \<open>main\<close> with its date range as arguments; the script runs it from 1 January 2025
  (ordinal 739252) to 31 January 2025 (ordinal 739282).
\<close>

definition main_january_range ::
  "'c service \<Rightarrow> date \<Rightarrow> date \<Rightarrow> 'c world \<Rightarrow> (error + unit) \<times> 'c world" where
  "main_january_range svc start_date end_date w =
     (case build_all_events start_date end_date [] of
        Inl e \<Rightarrow> (Inl e, w)
      | Inr all_events \<Rightarrow>
          (case insert_all svc all_events w of
             (Inl e, w') \<Rightarrow> (Inl e, w')
           | (Inr _, w') \<Rightarrow> (Inr (), print ALL_DONE w')))"

definition main_january :: "'c service \<Rightarrow> 'c world \<Rightarrow> (error + unit) \<times> 'c world" where
  "main_january svc w = main_january_range svc 739252 739282 w"


section \<open>A reference Calendar Service\<close>

text \<open>
  Modelled from the spec: the Calendar Service is an external collaborator, of which the
  repository holds only the calls. This is the contract of the spec's section 6, as an
  in-memory calendar: \<open>List\<close> returns the events whose time range intersects the
  window, narrowed by a server-side text filter \<open>text_filter\<close> (a parameter: the
  hint is best effort) and ordered by start time as \<open>orderBy='startTime'\<close> asks;
  \<open>Create\<close> stores the event under a fresh id; \<open>Update\<close> replaces the event
  stored under an id and \<open>Delete\<close> removes it, both failing with NotFound (404) when
  the id is not there. \<open>fails\<close> says which requests the service rejects with a server
  error (500); a rejected request changes nothing.
\<close>

record calendar =
  events :: "event list"
  next_id :: nat

definition in_window :: "datetime \<Rightarrow> datetime \<Rightarrow> event \<Rightarrow> bool" where
  "in_window time_min time_max evt \<longleftrightarrow> time_min < ev_end evt \<and> ev_start evt < time_max"

definition stored :: "nat \<Rightarrow> event_body \<Rightarrow> event" where
  "stored i b =
     \<lparr>ev_id = i, summary = Some (body_summary b), description = Some (body_description b),
      ev_start = body_start b, ev_end = body_end b, other = []\<rparr>"

fun calendar_service :: "(string \<Rightarrow> event \<Rightarrow> bool) \<Rightarrow> (call \<Rightarrow> bool) \<Rightarrow> calendar service" where
  "calendar_service text_filter fails (EventsList time_min time_max q) c =
     (if fails (EventsList time_min time_max q) then (Inl (HttpError 500), c)
      else (Inr (Items (sort_key ev_start
              (filter (\<lambda>evt. in_window time_min time_max evt \<and> text_filter q evt) (events c)))), c))"
| "calendar_service text_filter fails (EventsInsert b) c =
     (if fails (EventsInsert b) then (Inl (HttpError 500), c)
      else (Inr (Resource (stored (next_id c) b)),
            c\<lparr>events := events c @ [stored (next_id c) b], next_id := Suc (next_id c)\<rparr>))"
| "calendar_service text_filter fails (EventsUpdate i body) c =
     (if fails (EventsUpdate i body) then (Inl (HttpError 500), c)
      else if i \<notin> ev_id ` set (events c) then (Inl (HttpError 404), c)
      else (Inr (Resource (body\<lparr>ev_id := i\<rparr>)),
            c\<lparr>events := map (\<lambda>x. if ev_id x = i then body\<lparr>ev_id := i\<rparr> else x) (events c)\<rparr>))"
| "calendar_service text_filter fails (EventsDelete i) c =
     (if fails (EventsDelete i) then (Inl (HttpError 500), c)
      else if i \<notin> ev_id ` set (events c) then (Inl (HttpError 404), c)
      else (Inr NoContent, c\<lparr>events := filter (\<lambda>x. ev_id x \<noteq> i) (events c)\<rparr>))"


section \<open>update_deep_work_jan_2025.py\<close>

text \<open>One entry of \<open>SCHEDULE\<close>. The table itself is a parameter of \<open>main\<close> below.\<close>

record day_info =
  date :: date
  block1_title :: string
  block1_desc :: string
  block2_title :: string
  block2_desc :: string

text \<open>
  The \<open>for day_info in SCHEDULE\<close> loop of \<open>main\<close>. No request is guarded by
  \<open>try\<close>: an error raised by \<open>execute()\<close> leaves the loop and the script.
\<close>

fun main_jan_loop :: "'c service \<Rightarrow> day_info list \<Rightarrow> 'c world \<Rightarrow> (error + unit) \<times> 'c world" where
  "main_jan_loop svc [] w = (Inr (), w)"
| "main_jan_loop svc (day_info # rest) w =
     (case handle_block svc (block1_title day_info)
             (dt (date day_info) 8 0) (dt (date day_info) 10 0) (block1_desc day_info) w of
        (Inl e, w1) \<Rightarrow> (Inl e, w1)
      | (Inr _, w1) \<Rightarrow>
          (case handle_block svc (block2_title day_info)
                  (dt (date day_info) 10 30) (dt (date day_info) 12 30) (block2_desc day_info) w1 of
             (Inl e, w2) \<Rightarrow> (Inl e, w2)
           | (Inr _, w2) \<Rightarrow> main_jan_loop svc rest w2))"

definition main_jan_2025 :: "'c service \<Rightarrow> day_info list \<Rightarrow> 'c world \<Rightarrow> (error + unit) \<times> 'c world" where
  "main_jan_2025 svc SCHEDULE w =
     (case main_jan_loop svc SCHEDULE w of
        (Inl e, w') \<Rightarrow> (Inl e, w')
      | (Inr _, w') \<Rightarrow> (Inr (), print ALL_DONE w'))"

section \<open>update_deep_work_3week_plan.py\<close>




definition nl :: string where
  "nl = [CHR 0x0A]"




section \<open>update_marketing_q1.py\<close>

text \<open>One entry of \<open>WEEKS\<close>; \<open>days\<close> is the dictionary from day name to tasks.\<close>

record week_data =
  start_date :: date
  focus :: string
  days :: "string \<Rightarrow> string option"

text \<open>The \<open>for event in events\<close> loop of \<open>delete_existing_marketing_events\<close>.\<close>

fun delete_listed :: "'c service \<Rightarrow> event list \<Rightarrow> 'c world \<Rightarrow> (error + unit) \<times> 'c world" where
  "delete_listed svc [] w = (Inr (), w)"
| "delete_listed svc (event # rest) w =
     (if lower (get_summary event) = ''marketing & outreach'' then
        (case request svc (EventsDelete (ev_id event)) w of
           (Inl e, w') \<Rightarrow> (Inl e, w')
         | (Inr _, w') \<Rightarrow>
             delete_listed svc rest (print (DELETED (get_summary event) (ev_id event)) w'))
      else delete_listed svc rest w)"

definition delete_existing_marketing_events ::
  "'c service \<Rightarrow> datetime \<Rightarrow> datetime \<Rightarrow> 'c world \<Rightarrow> (error + unit) \<times> 'c world" where
  "delete_existing_marketing_events svc day_start day_end w =
     (case request svc (EventsList day_start day_end ''Marketing & Outreach'') w of
        (Inl e, w') \<Rightarrow> (Inl e, w')
      | (Inr events_result, w') \<Rightarrow> delete_listed svc (get_items events_result) w')"

text \<open>The description \<open>main\<close> builds for one day of one week.\<close>

definition marketing_description :: "week_data \<Rightarrow> string \<Rightarrow> string" where
  "marketing_description week_data day_name =
     ''**Focus**: '' @ focus week_data @ nl @ nl @ ''**'' @ day_name @ '' Tasks**:'' @ nl
       @ (case days week_data day_name of Some daily_tasks \<Rightarrow> daily_tasks
          | None \<Rightarrow> ''No tasks specified.'')"

text \<open>The inner loop of \<open>main\<close>, over \<open>enumerate(["Mon", "Tue", "Wed", "Thu", "Fri"])\<close>.\<close>

fun main_marketing_days ::
  "'c service \<Rightarrow> week_data \<Rightarrow> (nat \<times> string) list \<Rightarrow> 'c world \<Rightarrow> (error + unit) \<times> 'c world" where
  "main_marketing_days svc week_data [] w = (Inr (), w)"
| "main_marketing_days svc week_data ((i, day_name) # rest) w =
     (case delete_existing_marketing_events svc
             (dt (start_date week_data + int i) 16 0) (dt (start_date week_data + int i) 18 0) w of
        (Inl e, w1) \<Rightarrow> (Inl e, w1)
      | (Inr _, w1) \<Rightarrow>
          (case create_event svc ''Marketing & Outreach''
                  (dt (start_date week_data + int i) 16 0) (dt (start_date week_data + int i) 18 0)
                  (marketing_description week_data day_name) w1 of
             (Inl e, w2) \<Rightarrow> (Inl e, w2)
           | (Inr _, w2) \<Rightarrow> main_marketing_days svc week_data rest w2))"

definition day_names :: "(nat \<times> string) list" where
  "day_names = enumerate 0 [''Mon'', ''Tue'', ''Wed'', ''Thu'', ''Fri'']"

text \<open>The outer loop, \<open>for week_data in WEEKS\<close>, and \<open>main\<close>.\<close>

fun main_marketing_weeks :: "'c service \<Rightarrow> week_data list \<Rightarrow> 'c world \<Rightarrow> (error + unit) \<times> 'c world" where
  "main_marketing_weeks svc [] w = (Inr (), w)"
| "main_marketing_weeks svc (week_data # rest) w =
     (case main_marketing_days svc week_data day_names w of
        (Inl e, w') \<Rightarrow> (Inl e, w')
      | (Inr _, w') \<Rightarrow> main_marketing_weeks svc rest w')"

definition main_marketing :: "'c service \<Rightarrow> week_data list \<Rightarrow> 'c world \<Rightarrow> (error + unit) \<times> 'c world" where
  "main_marketing svc WEEKS w =
     (case main_marketing_weeks svc WEEKS w of
        (Inl e, w') \<Rightarrow> (Inl e, w')
      | (Inr _, w') \<Rightarrow> (Inr (), print ALL_DONE w'))"

section \<open>Auxiliary notions\<close>





section \<open>Example data\<close>

text \<open>
  Concrete dates, calendars and schedules on which the theorems below are instantiated.
  6 January 2025 is ordinal 739257, a Monday.
\<close>

definition jan6 :: date where
  "jan6 = 739257"

text \<open>A service whose text filter narrows nothing and that rejects nothing.\<close>

definition plain_service :: "calendar service" where
  "plain_service = calendar_service (\<lambda>q evt. True) (\<lambda>c. False)"

definition world_of :: "event list \<Rightarrow> calendar world" where
  "world_of evs =
     \<lparr>remote = \<lparr>events = evs, next_id = length evs\<rparr>, calls = [], printed = [], placed = []\<rparr>"

definition block1_early :: event where
  "block1_early =
     \<lparr>ev_id = 0, summary = Some ''deep work block 1'', description = Some ''old'',
      ev_start = dt jan6 8 0, ev_end = dt jan6 9 0, other = [(''attendees'', ''ann'')]\<rparr>"

definition block1_late :: event where
  "block1_late =
     \<lparr>ev_id = 1, summary = Some ''Deep Work Block 1'', description = None,
      ev_start = dt jan6 9 0, ev_end = dt jan6 10 0, other = []\<rparr>"

definition block1_prep :: event where
  "block1_prep =
     \<lparr>ev_id = 2, summary = Some ''Deep Work Block 1 prep'', description = None,
      ev_start = dt jan6 7 30, ev_end = dt jan6 8 30, other = []\<rparr>"

text \<open>Schedule entries: two regular days, and one whose first block has no title.\<close>

definition day_jan6 :: day_info where
  "day_jan6 =
     \<lparr>date = jan6, block1_title = ''Deep Work Block 1'',
      block1_desc = ''Detailed Use Case Identification'',
      block2_title = ''Deep Work Block 2'', block2_desc = ''System Architecture Design''\<rparr>"

definition day_jan7 :: day_info where
  "day_jan7 =
     \<lparr>date = jan6 + 1, block1_title = ''Deep Work Block 1'',
      block1_desc = ''Development Environment Setup'',
      block2_title = ''Deep Work Block 2'', block2_desc = ''Implement Basic Rule Engine''\<rparr>"

definition untitled_day :: day_info where
  "untitled_day =
     \<lparr>date = jan6, block1_title = [], block1_desc = ''X'',
      block2_title = ''Deep Work Block 2'', block2_desc = ''Z''\<rparr>"

definition week_jan6 :: week_data where
  "week_jan6 =
     \<lparr>start_date = jan6, focus = ''Defining Brand Identity and Messaging'',
      days = map_of [(''Mon'', ''1. Brainstorm''), (''Tue'', ''1. Outline key audience segments''),
                     (''Wed'', ''1. Develop a tagline''), (''Thu'', ''1. Draft your About Us''),
                     (''Fri'', ''1. Review the week'')]\<rparr>"

text \<open>
  A service that rejects the creation of exactly one event, block 1 of 6 January, and
  one that rejects every deletion.
\<close>

definition create_failing_service :: "calendar service" where
  "create_failing_service =
     calendar_service (\<lambda>q evt. True)
       (\<lambda>c. c = EventsInsert \<lparr>body_summary = ''Deep Work Block 1'',
                 body_description = ''Detailed Use Case Identification'',
                 body_start = dt jan6 8 0, body_end = dt jan6 10 0,
                 body_time_zone = ''Europe/London''\<rparr>)"

definition delete_failing_service :: "calendar service" where
  "delete_failing_service =
     calendar_service (\<lambda>q evt. True) (\<lambda>c. case c of EventsDelete i \<Rightarrow> True | _ \<Rightarrow> False)"

definition marketing_old :: event where
  "marketing_old =
     \<lparr>ev_id = 0, summary = Some ''Marketing & Outreach'', description = Some ''old plan'',
      ev_start = dt jan6 16 0, ev_end = dt jan6 18 0, other = []\<rparr>"


text \<open>Services that reject every list request, every update, or one creation on a Tuesday.\<close>

definition list_failing_service :: "calendar service" where
  "list_failing_service =
     calendar_service (\<lambda>q evt. True) (\<lambda>c. case c of EventsList a b q \<Rightarrow> True | _ \<Rightarrow> False)"

definition update_failing_service :: "calendar service" where
  "update_failing_service =
     calendar_service (\<lambda>q evt. True) (\<lambda>c. case c of EventsUpdate i b \<Rightarrow> True | _ \<Rightarrow> False)"

definition tuesday_failing_service :: "calendar service" where
  "tuesday_failing_service =
     calendar_service (\<lambda>q evt. True)
       (\<lambda>c. case c of EventsInsert b \<Rightarrow> body_start b = dt (jan6 + 1) 16 0 | _ \<Rightarrow> False)"

definition block2_old :: event where
  "block2_old =
     \<lparr>ev_id = 0, summary = Some ''Deep Work Block 2'', description = Some ''old'',
      ev_start = dt jan6 10 30, ev_end = dt jan6 12 30, other = []\<rparr>"




section \<open>Matcher\<close>

text \<open>
  C3. Whatever the service lists for the window (it is an arbitrary function here, so
  fuzzy and substring matches are included), \<open>find_event_by_summary_in_range\<close> returns
  an event only if it was listed and its summary equals the wanted one after lowering
  both; it returns \<open>None\<close> exactly when the list request succeeded and no listed event
  passes that test; and on \<open>None\<close> the caller's stanza is the create, not an error of
  its own.
\<close>

theorem find_event_exact_match:
  fixes svc :: "'c service"
  shows "(find_event_by_summary_in_range svc summ s e w = (Inr (Some evt), w') \<longrightarrow>
            lower (get_summary evt) = lower summ
            \<and> (\<exists>r. fst (svc (EventsList s e summ) (remote w)) = Inr r \<and> evt \<in> set (get_items r)))
       \<and> (fst (find_event_by_summary_in_range svc summ s e w) = Inr None \<longleftrightarrow>
            (\<exists>r. fst (svc (EventsList s e summ) (remote w)) = Inr r
                 \<and> (\<forall>x \<in> set (get_items r). lower (get_summary x) \<noteq> lower summ)))
       \<and> (find_event_by_summary_in_range svc summ s e w = (Inr None, w') \<longrightarrow>
            handle_block svc summ s e descr w = create_event svc summ s e descr w')"
  by (auto simp: find_event_by_summary_in_range_def handle_block_def request_def
      find_Some_iff find_None_iff split: prod.splits sum.splits)

theorem find_event_exact_match_witness:
  "find_event_by_summary_in_range plain_service ''Deep Work Block 1'' (dt jan6 8 0) (dt jan6 10 0)
       (world_of [block1_early, block1_prep])
     = (Inr (Some block1_early),
        (world_of [block1_early, block1_prep])
          \<lparr>calls := [EventsList (dt jan6 8 0) (dt jan6 10 0) ''Deep Work Block 1'']\<rparr>)
   \<and> lower (get_summary block1_early) = lower ''Deep Work Block 1''
   \<and> find_event_by_summary_in_range plain_service ''Deep Work Block 1'' (dt jan6 8 0) (dt jan6 10 0)
       (world_of [block1_prep])
     = (Inr None,
        (world_of [block1_prep])
          \<lparr>calls := [EventsList (dt jan6 8 0) (dt jan6 10 0) ''Deep Work Block 1'']\<rparr>)
   \<and> handle_block plain_service ''Deep Work Block 1'' (dt jan6 8 0) (dt jan6 10 0) ''X''
        (world_of [block1_prep])
     = create_event plain_service ''Deep Work Block 1'' (dt jan6 8 0) (dt jan6 10 0) ''X''
        ((world_of [block1_prep])
          \<lparr>calls := [EventsList (dt jan6 8 0) (dt jan6 10 0) ''Deep Work Block 1'']\<rparr>)"
proof -
  have found: "find_event_by_summary_in_range plain_service ''Deep Work Block 1''
       (dt jan6 8 0) (dt jan6 10 0) (world_of [block1_early, block1_prep])
     = (Inr (Some block1_early),
        (world_of [block1_early, block1_prep])
          \<lparr>calls := [EventsList (dt jan6 8 0) (dt jan6 10 0) ''Deep Work Block 1'']\<rparr>)"
    by code_simp
  have none: "find_event_by_summary_in_range plain_service ''Deep Work Block 1''
       (dt jan6 8 0) (dt jan6 10 0) (world_of [block1_prep])
     = (Inr None,
        (world_of [block1_prep])
          \<lparr>calls := [EventsList (dt jan6 8 0) (dt jan6 10 0) ''Deep Work Block 1'']\<rparr>)"
    by code_simp
  from found find_event_exact_match [of plain_service "''Deep Work Block 1''" "dt jan6 8 0"
      "dt jan6 10 0" "world_of [block1_early, block1_prep]" block1_early]
  have "lower (get_summary block1_early) = lower ''Deep Work Block 1''" by blast
  moreover from none find_event_exact_match [of plain_service "''Deep Work Block 1''" "dt jan6 8 0"
      "dt jan6 10 0" "world_of [block1_prep]" _ _ "''X''"]
  have "handle_block plain_service ''Deep Work Block 1'' (dt jan6 8 0) (dt jan6 10 0) ''X''
        (world_of [block1_prep])
     = create_event plain_service ''Deep Work Block 1'' (dt jan6 8 0) (dt jan6 10 0) ''X''
        ((world_of [block1_prep])
          \<lparr>calls := [EventsList (dt jan6 8 0) (dt jan6 10 0) ''Deep Work Block 1'']\<rparr>)"
    by blast
  ultimately show ?thesis using found none by simp
qed

text \<open>Two facts about \<open>List.find\<close> on a list sorted by a key.\<close>

lemma find_SomeD: "List.find P xs = Some x \<Longrightarrow> x \<in> set xs \<and> P x"
  by (induction xs) (auto split: if_splits)

lemma find_sorted_first:
  assumes "List.find P (sort_key f xs) = Some y" and "x \<in> set xs" and "P x"
  shows "f y \<le> f x"
proof -
  from assms(1) obtain i where i: "i < length (sort_key f xs)" "sort_key f xs ! i = y"
    and before: "\<forall>j<i. \<not> P (sort_key f xs ! j)"
    by (auto simp: find_Some_iff)
  from assms(2) obtain k where k: "k < length (sort_key f xs)" "sort_key f xs ! k = x"
    by (metis in_set_conv_nth set_sort)
  with before assms(3) have "i \<le> k" by (metis not_le_imp_less)
  with k(1) have "map f (sort_key f xs) ! i \<le> map f (sort_key f xs) ! k"
    using sorted_nth_mono [OF sorted_sort_key, of i k f xs] by simp
  with i k \<open>i \<le> k\<close> show ?thesis by simp
qed

text \<open>
  C4 (as amended). On a service that lists by start time, as the request asks with
  \<open>orderBy='startTime'\<close>, the event that \<open>find_event_by_summary_in_range\<close> returns
  is a listed exact match with the earliest start among all the exact matches in the
  window. The collision itself is not reported: nothing is printed, the calendar is not
  touched, and the value returned is that one event.
\<close>

theorem find_event_earliest_no_report:
  assumes "find_event_by_summary_in_range (calendar_service text_filter fails) summ s e w
             = (Inr (Some evt), w')"
  shows "evt \<in> set (events (remote w)) \<and> in_window s e evt
       \<and> lower (get_summary evt) = lower summ
       \<and> (\<forall>x \<in> set (events (remote w)).
             in_window s e x \<and> text_filter summ x \<and> lower (get_summary x) = lower summ
               \<longrightarrow> ev_start evt \<le> ev_start x)
       \<and> printed w' = printed w \<and> remote w' = remote w"
proof -
  let ?xs = "filter (\<lambda>evt. in_window s e evt \<and> text_filter summ evt) (events (remote w))"
  from assms have nf: "\<not> fails (EventsList s e summ)"
    by (auto simp: find_event_by_summary_in_range_def request_def split: if_splits)
  with assms have f: "List.find (\<lambda>evt. lower (get_summary evt) = lower summ) (sort_key ev_start ?xs) = Some evt"
    and w': "w' = w\<lparr>remote := remote w, calls := calls w @ [EventsList s e summ]\<rparr>"
    by (auto simp: find_event_by_summary_in_range_def request_def get_items_def)
  from find_SomeD [OF f] have "evt \<in> set ?xs" "lower (get_summary evt) = lower summ"
    by simp_all
  moreover have "ev_start evt \<le> ev_start x"
    if "x \<in> set (events (remote w))" "in_window s e x" "text_filter summ x"
       "lower (get_summary x) = lower summ" for x
    using find_sorted_first [OF f, of x] that by simp
  ultimately show ?thesis using w' by auto
qed

theorem find_event_earliest_no_report_witness:
  "find_event_by_summary_in_range plain_service ''Deep Work Block 1'' (dt jan6 8 0) (dt jan6 10 0)
       (world_of [block1_late, block1_early])
     = (Inr (Some block1_early),
        (world_of [block1_late, block1_early])
          \<lparr>calls := [EventsList (dt jan6 8 0) (dt jan6 10 0) ''Deep Work Block 1'']\<rparr>)
   \<and> ev_start block1_early \<le> ev_start block1_late
   \<and> printed ((world_of [block1_late, block1_early])
          \<lparr>calls := [EventsList (dt jan6 8 0) (dt jan6 10 0) ''Deep Work Block 1'']\<rparr>) = []"
proof -
  have h: "find_event_by_summary_in_range (calendar_service (\<lambda>q evt. True) (\<lambda>c. False))
       ''Deep Work Block 1'' (dt jan6 8 0) (dt jan6 10 0)
       (world_of [block1_late, block1_early])
     = (Inr (Some block1_early),
        (world_of [block1_late, block1_early])
          \<lparr>calls := [EventsList (dt jan6 8 0) (dt jan6 10 0) ''Deep Work Block 1'']\<rparr>)"
    by code_simp
  have "ev_start block1_early \<le> ev_start block1_late"
    using find_event_earliest_no_report [OF h] by (simp add: world_of_def in_window_def block1_late_def dt_def jan6_def get_summary_def lower_def lower_char_def)
  moreover have "printed ((world_of [block1_late, block1_early])
          \<lparr>calls := [EventsList (dt jan6 8 0) (dt jan6 10 0) ''Deep Work Block 1'']\<rparr>) = []"
    using find_event_earliest_no_report [OF h] by (simp add: world_of_def)
  ultimately show ?thesis using h by (simp add: plain_service_def)
qed

text \<open>
  C4 as stated fails: with two exact matches in the window the caller gets the same
  answer as with one, and nothing is printed.
\<close>

theorem collision_not_reported_counterexample:
  "length (filter (\<lambda>x. in_window (dt jan6 8 0) (dt jan6 10 0) x
                       \<and> lower (get_summary x) = lower ''Deep Work Block 1'')
             (events (remote (world_of [block1_late, block1_early])))) = 2
   \<and> fst (find_event_by_summary_in_range plain_service ''Deep Work Block 1''
            (dt jan6 8 0) (dt jan6 10 0) (world_of [block1_late, block1_early]))
       = Inr (Some block1_early)
   \<and> fst (find_event_by_summary_in_range plain_service ''Deep Work Block 1''
            (dt jan6 8 0) (dt jan6 10 0) (world_of [block1_early]))
       = Inr (Some block1_early)
   \<and> printed (snd (find_event_by_summary_in_range plain_service ''Deep Work Block 1''
            (dt jan6 8 0) (dt jan6 10 0) (world_of [block1_late, block1_early]))) = []"
  by code_simp

section \<open>Upsert\<close>

lemma same_id_same_event:
  "distinct (map ev_id xs) \<Longrightarrow> x \<in> set xs \<Longrightarrow> y \<in> set xs \<Longrightarrow> ev_id x = ev_id y \<Longrightarrow> x = y"
  by (auto simp: distinct_map dest: inj_onD)

text \<open>
  C5. When the match is found, the stanza of \<open>main\<close> is the update; the one request
  it sends is an update under the id of the event as found, with a body that agrees
  with that event on id, summary, start, end and every other key, and carries the new
  description. On the reference service, with distinct ids, the calendar afterwards is
  the calendar before with the description of that one event overwritten: no id, title
  or time of any event changes, and no event is added or removed.
\<close>

theorem update_overwrites_description_only:
  fixes svc :: "'c service"
  shows "(find_event_by_summary_in_range svc summ s e w = (Inr (Some evt), w1) \<longrightarrow>
            handle_block svc summ s e d w = update_event_description svc evt d w1)
       \<and> (\<exists>body. calls (snd (update_event_description svc evt d w1))
                     = calls w1 @ [EventsUpdate (ev_id evt) body]
              \<and> ev_id body = ev_id evt \<and> summary body = summary evt
              \<and> ev_start body = ev_start evt \<and> ev_end body = ev_end evt
              \<and> other body = other evt \<and> description body = Some d)
       \<and> (evt \<in> set (events (remote wc)) \<and> distinct (map ev_id (events (remote wc)))
            \<and> \<not> fails (EventsUpdate (ev_id evt) (evt\<lparr>description := Some d\<rparr>)) \<longrightarrow>
            events (remote (snd (update_event_description (calendar_service text_filter fails) evt d wc)))
              = map (\<lambda>x. if ev_id x = ev_id evt then x\<lparr>description := Some d\<rparr> else x)
                  (events (remote wc))
            \<and> next_id (remote (snd (update_event_description (calendar_service text_filter fails) evt d wc)))
              = next_id (remote wc))"
proof (intro conjI impI)
  assume "find_event_by_summary_in_range svc summ s e w = (Inr (Some evt), w1)"
  then show "handle_block svc summ s e d w = update_event_description svc evt d w1"
    by (simp add: handle_block_def)
next
  show "\<exists>body. calls (snd (update_event_description svc evt d w1))
                     = calls w1 @ [EventsUpdate (ev_id evt) body]
              \<and> ev_id body = ev_id evt \<and> summary body = summary evt
              \<and> ev_start body = ev_start evt \<and> ev_end body = ev_end evt
              \<and> other body = other evt \<and> description body = Some d"
    by (rule exI [of _ "evt\<lparr>description := Some d\<rparr>"])
       (simp add: update_event_description_def request_def print_def split: prod.splits sum.splits)
next
  assume a: "evt \<in> set (events (remote wc)) \<and> distinct (map ev_id (events (remote wc)))
            \<and> \<not> fails (EventsUpdate (ev_id evt) (evt\<lparr>description := Some d\<rparr>))"
  have same: "(if ev_id x = ev_id evt then evt\<lparr>description := Some d, ev_id := ev_id evt\<rparr> else x)
            = (if ev_id x = ev_id evt then x\<lparr>description := Some d\<rparr> else x)"
    if "x \<in> set (events (remote wc))" for x
    using same_id_same_event [of "events (remote wc)" x evt] a that by auto
  from a show "events (remote (snd (update_event_description (calendar_service text_filter fails) evt d wc)))
              = map (\<lambda>x. if ev_id x = ev_id evt then x\<lparr>description := Some d\<rparr> else x)
                  (events (remote wc))"
    using same by (auto simp: update_event_description_def request_def print_def)
  from a show "next_id (remote (snd (update_event_description (calendar_service text_filter fails) evt d wc)))
              = next_id (remote wc)"
    by (auto simp: update_event_description_def request_def print_def)
qed

theorem update_overwrites_description_only_witness:
  "find_event_by_summary_in_range plain_service ''Deep Work Block 1'' (dt jan6 8 0) (dt jan6 10 0)
       (world_of [block1_early])
     = (Inr (Some block1_early),
        (world_of [block1_early])
          \<lparr>calls := [EventsList (dt jan6 8 0) (dt jan6 10 0) ''Deep Work Block 1'']\<rparr>)
   \<and> block1_early \<in> set (events (remote (world_of [block1_early])))
   \<and> distinct (map ev_id (events (remote (world_of [block1_early]))))
   \<and> events (remote (snd (update_event_description plain_service block1_early ''Y''
                             (world_of [block1_early]))))
       = [block1_early\<lparr>description := Some ''Y''\<rparr>]
   \<and> handle_block plain_service ''Deep Work Block 1'' (dt jan6 8 0) (dt jan6 10 0) ''Y''
        (world_of [block1_early])
       = update_event_description plain_service block1_early ''Y''
           ((world_of [block1_early])
              \<lparr>calls := [EventsList (dt jan6 8 0) (dt jan6 10 0) ''Deep Work Block 1'']\<rparr>)"
proof -
  have found: "find_event_by_summary_in_range plain_service ''Deep Work Block 1''
       (dt jan6 8 0) (dt jan6 10 0) (world_of [block1_early])
     = (Inr (Some block1_early),
        (world_of [block1_early])
          \<lparr>calls := [EventsList (dt jan6 8 0) (dt jan6 10 0) ''Deep Work Block 1'']\<rparr>)"
    by code_simp
  have pre: "block1_early \<in> set (events (remote (world_of [block1_early])))
      \<and> distinct (map ev_id (events (remote (world_of [block1_early]))))
      \<and> \<not> (\<lambda>c. False) (EventsUpdate (ev_id block1_early) (block1_early\<lparr>description := Some ''Y''\<rparr>))"
    by (simp add: world_of_def)
  note inst = update_overwrites_description_only [of plain_service "''Deep Work Block 1''"
      "dt jan6 8 0" "dt jan6 10 0" "world_of [block1_early]" block1_early _ "''Y''"
      "world_of [block1_early]" "\<lambda>c. False" "\<lambda>q evt. True"]
  from inst pre have "events (remote (snd (update_event_description plain_service block1_early ''Y''
                             (world_of [block1_early]))))
       = [block1_early\<lparr>description := Some ''Y''\<rparr>]"
    by (simp add: plain_service_def world_of_def)
  moreover from inst found have "handle_block plain_service ''Deep Work Block 1'' (dt jan6 8 0) (dt jan6 10 0) ''Y''
        (world_of [block1_early])
       = update_event_description plain_service block1_early ''Y''
           ((world_of [block1_early])
              \<lparr>calls := [EventsList (dt jan6 8 0) (dt jan6 10 0) ''Deep Work Block 1'']\<rparr>)"
    by blast
  ultimately show ?thesis using found pre by simp
qed

section \<open>Errors\<close>

lemma main_jan_loop_append:
  "main_jan_loop svc (pre @ post) w =
     (case main_jan_loop svc pre w of
        (Inl e, w') \<Rightarrow> (Inl e, w')
      | (Inr u, w') \<Rightarrow> main_jan_loop svc post w')"
  by (induction pre arbitrary: w) (auto split: prod.splits sum.splits)

lemma main_marketing_weeks_append:
  "main_marketing_weeks svc (pre @ post) w =
     (case main_marketing_weeks svc pre w of
        (Inl e, w') \<Rightarrow> (Inl e, w')
      | (Inr u, w') \<Rightarrow> main_marketing_weeks svc post w')"
  by (induction pre arbitrary: w) (auto split: prod.splits sum.splits)

lemma main_marketing_days_append:
  "main_marketing_days svc week_data (pre @ post) w =
     (case main_marketing_days svc week_data pre w of
        (Inl e, w') \<Rightarrow> (Inl e, w')
      | (Inr u, w') \<Rightarrow> main_marketing_days svc week_data post w')"
  by (induction pre arbitrary: w) (auto split: prod.splits sum.splits)

lemma delete_listed_append:
  "delete_listed svc (pre @ post) w =
     (case delete_listed svc pre w of
        (Inl e, w') \<Rightarrow> (Inl e, w')
      | (Inr u, w') \<Rightarrow> delete_listed svc post w')"
  by (induction pre arbitrary: w) (auto split: prod.splits sum.splits)

lemma request_result: "fst (request svc c w) = fst (svc c (remote w))"
  by (simp add: request_def split: prod.splits)

text \<open>
  C6 (as amended). No request is guarded. A list, create or update request that the
  service rejects makes the stanza of a block end with that error, in the world right
  after the rejected request; a rejected list, delete or create request does the same
  to the marketing script's helpers. An error from block 1 or block 2 of an entry, or
  from the deletion or creation of a day, ends the whole run with that error in that
  same world: the rest of the entry and every later entry are not processed, what was
  done before stays, and nothing but the raised error records the failure.
\<close>

theorem service_error_ends_run:
  fixes svc :: "'c service"
  shows
   "(fst (svc (EventsList s e summ) (remote w)) = Inl err \<longrightarrow>
       handle_block svc summ s e descr w = (Inl err, snd (request svc (EventsList s e summ) w)))
  \<and> (find_event_by_summary_in_range svc summ s e w = (Inr None, w1)
       \<and> fst (svc (EventsInsert \<lparr>body_summary = summ, body_description = descr, body_start = s,
                     body_end = e, body_time_zone = ''Europe/London''\<rparr>) (remote w1)) = Inl err \<longrightarrow>
       handle_block svc summ s e descr w
         = (Inl err, snd (request svc (EventsInsert \<lparr>body_summary = summ, body_description = descr,
                body_start = s, body_end = e, body_time_zone = ''Europe/London''\<rparr>) w1)))
  \<and> (find_event_by_summary_in_range svc summ s e w = (Inr (Some evt), w1)
       \<and> fst (svc (EventsUpdate (ev_id evt) (evt\<lparr>description := Some descr\<rparr>)) (remote w1)) = Inl err \<longrightarrow>
       handle_block svc summ s e descr w
         = (Inl err, snd (request svc (EventsUpdate (ev_id evt) (evt\<lparr>description := Some descr\<rparr>)) w1)))
  \<and> (main_jan_loop svc pre w = (Inr (), w0)
       \<and> handle_block svc (block1_title day_info) (dt (date day_info) 8 0) (dt (date day_info) 10 0)
            (block1_desc day_info) w0 = (Inl err, w1) \<longrightarrow>
       main_jan_2025 svc (pre @ day_info # post) w = (Inl err, w1))
  \<and> (main_jan_loop svc pre w = (Inr (), w0)
       \<and> handle_block svc (block1_title day_info) (dt (date day_info) 8 0) (dt (date day_info) 10 0)
            (block1_desc day_info) w0 = (Inr (), w1)
       \<and> handle_block svc (block2_title day_info) (dt (date day_info) 10 30) (dt (date day_info) 12 30)
            (block2_desc day_info) w1 = (Inl err, w2) \<longrightarrow>
       main_jan_2025 svc (pre @ day_info # post) w = (Inl err, w2))
  \<and> (fst (svc (EventsList s e ''Marketing & Outreach'') (remote w)) = Inl err \<longrightarrow>
       delete_existing_marketing_events svc s e w
         = (Inl err, snd (request svc (EventsList s e ''Marketing & Outreach'') w)))
  \<and> (fst (svc (EventsList s e ''Marketing & Outreach'') (remote w)) = Inr listed
       \<and> get_items listed = handled @ event # todo
       \<and> delete_listed svc handled (snd (request svc (EventsList s e ''Marketing & Outreach'') w)) = (Inr (), w1)
       \<and> lower (get_summary event) = ''marketing & outreach''
       \<and> fst (svc (EventsDelete (ev_id event)) (remote w1)) = Inl err \<longrightarrow>
       delete_existing_marketing_events svc s e w
         = (Inl err, snd (request svc (EventsDelete (ev_id event)) w1)))
  \<and> (fst (svc (EventsInsert \<lparr>body_summary = summ, body_description = descr, body_start = s,
                     body_end = e, body_time_zone = ''Europe/London''\<rparr>) (remote w)) = Inl err \<longrightarrow>
       create_event svc summ s e descr w
         = (Inl err, snd (request svc (EventsInsert \<lparr>body_summary = summ, body_description = descr,
                body_start = s, body_end = e, body_time_zone = ''Europe/London''\<rparr>) w)))
  \<and> (main_marketing_weeks svc weeks w = (Inr (), w0)
       \<and> day_names = days_done @ (i, day_name) # days_todo
       \<and> main_marketing_days svc week_data days_done w0 = (Inr (), w1)
       \<and> delete_existing_marketing_events svc (dt (start_date week_data + int i) 16 0)
            (dt (start_date week_data + int i) 18 0) w1 = (Inl err, w2) \<longrightarrow>
       main_marketing svc (weeks @ week_data # later) w = (Inl err, w2))
  \<and> (main_marketing_weeks svc weeks w = (Inr (), w0)
       \<and> day_names = days_done @ (i, day_name) # days_todo
       \<and> main_marketing_days svc week_data days_done w0 = (Inr (), w1)
       \<and> delete_existing_marketing_events svc (dt (start_date week_data + int i) 16 0)
            (dt (start_date week_data + int i) 18 0) w1 = (Inr (), w2)
       \<and> create_event svc ''Marketing & Outreach'' (dt (start_date week_data + int i) 16 0)
            (dt (start_date week_data + int i) 18 0) (marketing_description week_data day_name) w2
           = (Inl err, w3) \<longrightarrow>
       main_marketing svc (weeks @ week_data # later) w = (Inl err, w3))"
proof (intro conjI impI)
  assume "fst (svc (EventsList s e summ) (remote w)) = Inl err"
  then show "handle_block svc summ s e descr w = (Inl err, snd (request svc (EventsList s e summ) w))"
    using request_result [of svc "EventsList s e summ" w]
    by (cases "request svc (EventsList s e summ) w")
       (simp add: handle_block_def find_event_by_summary_in_range_def)
next
  assume "find_event_by_summary_in_range svc summ s e w = (Inr None, w1)
       \<and> fst (svc (EventsInsert \<lparr>body_summary = summ, body_description = descr, body_start = s,
                     body_end = e, body_time_zone = ''Europe/London''\<rparr>) (remote w1)) = Inl err"
  then show "handle_block svc summ s e descr w
         = (Inl err, snd (request svc (EventsInsert \<lparr>body_summary = summ, body_description = descr,
                body_start = s, body_end = e, body_time_zone = ''Europe/London''\<rparr>) w1))"
    using request_result [of svc "EventsInsert \<lparr>body_summary = summ, body_description = descr,
        body_start = s, body_end = e, body_time_zone = ''Europe/London''\<rparr>" w1]
    by (cases "request svc (EventsInsert \<lparr>body_summary = summ, body_description = descr,
        body_start = s, body_end = e, body_time_zone = ''Europe/London''\<rparr>) w1")
       (simp add: handle_block_def create_event_def)
next
  assume "find_event_by_summary_in_range svc summ s e w = (Inr (Some evt), w1)
       \<and> fst (svc (EventsUpdate (ev_id evt) (evt\<lparr>description := Some descr\<rparr>)) (remote w1)) = Inl err"
  then show "handle_block svc summ s e descr w
         = (Inl err, snd (request svc (EventsUpdate (ev_id evt) (evt\<lparr>description := Some descr\<rparr>)) w1))"
    using request_result [of svc "EventsUpdate (ev_id evt) (evt\<lparr>description := Some descr\<rparr>)" w1]
    by (cases "request svc (EventsUpdate (ev_id evt) (evt\<lparr>description := Some descr\<rparr>)) w1")
       (simp add: handle_block_def update_event_description_def)
next
  assume "main_jan_loop svc pre w = (Inr (), w0)
       \<and> handle_block svc (block1_title day_info) (dt (date day_info) 8 0) (dt (date day_info) 10 0)
            (block1_desc day_info) w0 = (Inl err, w1)"
  then show "main_jan_2025 svc (pre @ day_info # post) w = (Inl err, w1)"
    by (simp add: main_jan_2025_def main_jan_loop_append)
next
  assume "main_jan_loop svc pre w = (Inr (), w0)
       \<and> handle_block svc (block1_title day_info) (dt (date day_info) 8 0) (dt (date day_info) 10 0)
            (block1_desc day_info) w0 = (Inr (), w1)
       \<and> handle_block svc (block2_title day_info) (dt (date day_info) 10 30) (dt (date day_info) 12 30)
            (block2_desc day_info) w1 = (Inl err, w2)"
  then show "main_jan_2025 svc (pre @ day_info # post) w = (Inl err, w2)"
    by (simp add: main_jan_2025_def main_jan_loop_append)
next
  assume "fst (svc (EventsList s e ''Marketing & Outreach'') (remote w)) = Inl err"
  then show "delete_existing_marketing_events svc s e w
         = (Inl err, snd (request svc (EventsList s e ''Marketing & Outreach'') w))"
    using request_result [of svc "EventsList s e ''Marketing & Outreach''" w]
    by (cases "request svc (EventsList s e ''Marketing & Outreach'') w")
       (simp add: delete_existing_marketing_events_def)
next
  assume a: "fst (svc (EventsList s e ''Marketing & Outreach'') (remote w)) = Inr listed
       \<and> get_items listed = handled @ event # todo
       \<and> delete_listed svc handled (snd (request svc (EventsList s e ''Marketing & Outreach'') w)) = (Inr (), w1)
       \<and> lower (get_summary event) = ''marketing & outreach''
       \<and> fst (svc (EventsDelete (ev_id event)) (remote w1)) = Inl err"
  obtain wl where wl: "request svc (EventsList s e ''Marketing & Outreach'') w = (Inr listed, wl)"
    using a request_result [of svc "EventsList s e ''Marketing & Outreach''" w]
    by (cases "request svc (EventsList s e ''Marketing & Outreach'') w") simp
  obtain wd where wd: "request svc (EventsDelete (ev_id event)) w1 = (Inl err, wd)"
    using a request_result [of svc "EventsDelete (ev_id event)" w1]
    by (cases "request svc (EventsDelete (ev_id event)) w1") simp
  from a wl wd show "delete_existing_marketing_events svc s e w
         = (Inl err, snd (request svc (EventsDelete (ev_id event)) w1))"
    by (simp add: delete_existing_marketing_events_def delete_listed_append)
next
  assume "fst (svc (EventsInsert \<lparr>body_summary = summ, body_description = descr, body_start = s,
                     body_end = e, body_time_zone = ''Europe/London''\<rparr>) (remote w)) = Inl err"
  then show "create_event svc summ s e descr w
         = (Inl err, snd (request svc (EventsInsert \<lparr>body_summary = summ, body_description = descr,
                body_start = s, body_end = e, body_time_zone = ''Europe/London''\<rparr>) w))"
    using request_result [of svc "EventsInsert \<lparr>body_summary = summ, body_description = descr,
        body_start = s, body_end = e, body_time_zone = ''Europe/London''\<rparr>" w]
    by (cases "request svc (EventsInsert \<lparr>body_summary = summ, body_description = descr,
        body_start = s, body_end = e, body_time_zone = ''Europe/London''\<rparr>) w")
       (simp add: create_event_def)
next
  assume a: "main_marketing_weeks svc weeks w = (Inr (), w0)
       \<and> day_names = days_done @ (i, day_name) # days_todo
       \<and> main_marketing_days svc week_data days_done w0 = (Inr (), w1)
       \<and> delete_existing_marketing_events svc (dt (start_date week_data + int i) 16 0)
            (dt (start_date week_data + int i) 18 0) w1 = (Inl err, w2)"
  from a have wk: "main_marketing_weeks svc weeks w = (Inr (), w0)" by blast
  from a have dn: "day_names = days_done @ (i, day_name) # days_todo" by blast
  from a have dd: "main_marketing_days svc week_data days_done w0 = (Inr (), w1)" by blast
  from a have de: "delete_existing_marketing_events svc (dt (start_date week_data + int i) 16 0)
            (dt (start_date week_data + int i) 18 0) w1 = (Inl err, w2)" by blast
  from dd de have "main_marketing_days svc week_data (days_done @ (i, day_name) # days_todo) w0
      = (Inl err, w2)"
    by (simp add: main_marketing_days_append)
  then have "main_marketing_days svc week_data day_names w0 = (Inl err, w2)"
    unfolding dn .
  with wk show "main_marketing svc (weeks @ week_data # later) w = (Inl err, w2)"
    by (simp add: main_marketing_def main_marketing_weeks_append)
next
  assume a: "main_marketing_weeks svc weeks w = (Inr (), w0)
       \<and> day_names = days_done @ (i, day_name) # days_todo
       \<and> main_marketing_days svc week_data days_done w0 = (Inr (), w1)
       \<and> delete_existing_marketing_events svc (dt (start_date week_data + int i) 16 0)
            (dt (start_date week_data + int i) 18 0) w1 = (Inr (), w2)
       \<and> create_event svc ''Marketing & Outreach'' (dt (start_date week_data + int i) 16 0)
            (dt (start_date week_data + int i) 18 0) (marketing_description week_data day_name) w2
           = (Inl err, w3)"
  from a have wk: "main_marketing_weeks svc weeks w = (Inr (), w0)" by blast
  from a have dn: "day_names = days_done @ (i, day_name) # days_todo" by blast
  from a have dd: "main_marketing_days svc week_data days_done w0 = (Inr (), w1)" by blast
  from a have de: "delete_existing_marketing_events svc (dt (start_date week_data + int i) 16 0)
            (dt (start_date week_data + int i) 18 0) w1 = (Inr (), w2)" by blast
  from a have ce: "create_event svc ''Marketing & Outreach'' (dt (start_date week_data + int i) 16 0)
            (dt (start_date week_data + int i) 18 0) (marketing_description week_data day_name) w2
           = (Inl err, w3)" by blast
  from dd de ce have "main_marketing_days svc week_data (days_done @ (i, day_name) # days_todo) w0
      = (Inl err, w3)"
    by (simp add: main_marketing_days_append)
  then have "main_marketing_days svc week_data day_names w0 = (Inl err, w3)"
    unfolding dn .
  with wk show "main_marketing svc (weeks @ week_data # later) w = (Inl err, w3)"
    by (simp add: main_marketing_def main_marketing_weeks_append)
qed

lemma result_pair: "fst p = a \<Longrightarrow> p = (a, snd p)"
  by (cases p) simp

theorem service_error_ends_run_witness:
  "fst (create_failing_service
          (EventsInsert \<lparr>body_summary = block1_title day_jan6, body_description = block1_desc day_jan6,
             body_start = dt (date day_jan6) 8 0, body_end = dt (date day_jan6) 10 0,
             body_time_zone = ''Europe/London''\<rparr>)
          (remote (snd (find_event_by_summary_in_range create_failing_service (block1_title day_jan6)
             (dt (date day_jan6) 8 0) (dt (date day_jan6) 10 0) (world_of []))))) = Inl (HttpError 500)
   \<and> fst (main_jan_2025 create_failing_service ([] @ day_jan6 # [day_jan7]) (world_of []))
       = Inl (HttpError 500)
   \<and> fst (list_failing_service
          (EventsList (dt (date day_jan6) 8 0) (dt (date day_jan6) 10 0) (block1_title day_jan6))
          (remote (world_of []))) = Inl (HttpError 500)
   \<and> main_jan_2025 list_failing_service ([] @ day_jan6 # [day_jan7]) (world_of [])
       = (Inl (HttpError 500),
          snd (request list_failing_service
                 (EventsList (dt (date day_jan6) 8 0) (dt (date day_jan6) 10 0) (block1_title day_jan6))
                 (world_of [])))
   \<and> fst (main_jan_2025 update_failing_service ([] @ day_jan6 # [day_jan7]) (world_of [block2_old]))
       = Inl (HttpError 500)
   \<and> fst (main_marketing delete_failing_service ([] @ week_jan6 # [week_jan6]) (world_of [marketing_old]))
       = Inl (HttpError 500)
   \<and> fst (main_marketing tuesday_failing_service ([] @ week_jan6 # [week_jan6]) (world_of [marketing_old]))
       = Inl (HttpError 500)"
proof -
  note T = service_error_ends_run
  \<comment> \<open>the creation of block 1 is rejected\<close>
  let ?b1 = "EventsInsert \<lparr>body_summary = block1_title day_jan6, body_description = block1_desc day_jan6,
             body_start = dt (date day_jan6) 8 0, body_end = dt (date day_jan6) 10 0,
             body_time_zone = ''Europe/London''\<rparr>"
  let ?f1 = "find_event_by_summary_in_range create_failing_service (block1_title day_jan6)
             (dt (date day_jan6) 8 0) (dt (date day_jan6) 10 0) (world_of [])"
  have f1: "?f1 = (Inr None, snd ?f1)" by (rule result_pair) code_simp
  have r1: "fst (create_failing_service ?b1 (remote (snd ?f1))) = Inl (HttpError 500)" by code_simp
  have h1: "handle_block create_failing_service (block1_title day_jan6) (dt (date day_jan6) 8 0)
      (dt (date day_jan6) 10 0) (block1_desc day_jan6) (world_of [])
      = (Inl (HttpError 500), snd (request create_failing_service ?b1 (snd ?f1)))"
    by (rule T [where svc = create_failing_service and summ = "block1_title day_jan6"
        and s = "dt (date day_jan6) 8 0" and e = "dt (date day_jan6) 10 0"
        and descr = "block1_desc day_jan6" and w = "world_of []" and ?w1.0 = "snd ?f1"
        and err = "HttpError 500", THEN conjunct2, THEN conjunct1, THEN mp, OF conjI [OF f1 r1]])
  have p1: "main_jan_loop create_failing_service [] (world_of []) = (Inr (), world_of [])" by simp
  have run1: "main_jan_2025 create_failing_service ([] @ day_jan6 # [day_jan7]) (world_of [])
      = (Inl (HttpError 500), snd (request create_failing_service ?b1 (snd ?f1)))"
    by (rule T [where svc = create_failing_service and pre = "[]" and w = "world_of []"
        and ?w0.0 = "world_of []" and day_info = day_jan6 and err = "HttpError 500"
        and ?w1.0 = "snd (request create_failing_service ?b1 (snd ?f1))" and post = "[day_jan7]", THEN conjunct2, THEN conjunct2, THEN conjunct2, THEN conjunct1, THEN mp, OF conjI [OF p1 h1]])
  \<comment> \<open>the list request of block 1 is rejected\<close>
  let ?l = "EventsList (dt (date day_jan6) 8 0) (dt (date day_jan6) 10 0) (block1_title day_jan6)"
  have r2: "fst (list_failing_service ?l (remote (world_of []))) = Inl (HttpError 500)" by code_simp
  have h2: "handle_block list_failing_service (block1_title day_jan6) (dt (date day_jan6) 8 0)
      (dt (date day_jan6) 10 0) (block1_desc day_jan6) (world_of [])
      = (Inl (HttpError 500), snd (request list_failing_service ?l (world_of [])))"
    by (rule T [where svc = list_failing_service and summ = "block1_title day_jan6"
        and s = "dt (date day_jan6) 8 0" and e = "dt (date day_jan6) 10 0"
        and descr = "block1_desc day_jan6" and w = "world_of []" and err = "HttpError 500", THEN conjunct1, THEN mp, OF r2])
  have p2: "main_jan_loop list_failing_service [] (world_of []) = (Inr (), world_of [])" by simp
  have run2: "main_jan_2025 list_failing_service ([] @ day_jan6 # [day_jan7]) (world_of [])
      = (Inl (HttpError 500), snd (request list_failing_service ?l (world_of [])))"
    by (rule T [where svc = list_failing_service and pre = "[]" and w = "world_of []"
        and ?w0.0 = "world_of []" and day_info = day_jan6 and err = "HttpError 500"
        and ?w1.0 = "snd (request list_failing_service ?l (world_of []))" and post = "[day_jan7]", THEN conjunct2, THEN conjunct2, THEN conjunct2, THEN conjunct1, THEN mp, OF conjI [OF p2 h2]])
  \<comment> \<open>block 1 is created, the update of block 2 is rejected\<close>
  let ?w = "world_of [block2_old]"
  let ?hb1 = "handle_block update_failing_service (block1_title day_jan6) (dt (date day_jan6) 8 0)
      (dt (date day_jan6) 10 0) (block1_desc day_jan6) ?w"
  have b1: "?hb1 = (Inr (), snd ?hb1)" by (rule result_pair) code_simp
  let ?f3 = "find_event_by_summary_in_range update_failing_service (block2_title day_jan6)
             (dt (date day_jan6) 10 30) (dt (date day_jan6) 12 30) (snd ?hb1)"
  have f3: "?f3 = (Inr (Some block2_old), snd ?f3)" by (rule result_pair) code_simp
  let ?u = "EventsUpdate (ev_id block2_old) (block2_old\<lparr>description := Some (block2_desc day_jan6)\<rparr>)"
  have r3: "fst (update_failing_service ?u (remote (snd ?f3))) = Inl (HttpError 500)" by code_simp
  have h3: "handle_block update_failing_service (block2_title day_jan6) (dt (date day_jan6) 10 30)
      (dt (date day_jan6) 12 30) (block2_desc day_jan6) (snd ?hb1)
      = (Inl (HttpError 500), snd (request update_failing_service ?u (snd ?f3)))"
    by (rule T [where svc = update_failing_service and summ = "block2_title day_jan6"
        and s = "dt (date day_jan6) 10 30" and e = "dt (date day_jan6) 12 30"
        and descr = "block2_desc day_jan6" and w = "snd ?hb1" and ?w1.0 = "snd ?f3"
        and evt = block2_old and err = "HttpError 500", THEN conjunct2, THEN conjunct2, THEN conjunct1, THEN mp, OF conjI [OF f3 r3]])
  have p3: "main_jan_loop update_failing_service [] ?w = (Inr (), ?w)" by simp
  have run3: "main_jan_2025 update_failing_service ([] @ day_jan6 # [day_jan7]) ?w
      = (Inl (HttpError 500), snd (request update_failing_service ?u (snd ?f3)))"
    by (rule T [where svc = update_failing_service and pre = "[]" and w = ?w
        and ?w0.0 = ?w and day_info = day_jan6 and err = "HttpError 500"
        and ?w1.0 = "snd ?hb1"
        and ?w2.0 = "snd (request update_failing_service ?u (snd ?f3))" and post = "[day_jan7]", THEN conjunct2, THEN conjunct2, THEN conjunct2, THEN conjunct2, THEN conjunct1, THEN mp, OF conjI [OF p3 conjI [OF b1 h3]]])
  \<comment> \<open>the deletion of the old Monday event is rejected\<close>
  let ?m = "world_of [marketing_old]"
  let ?s = "dt (start_date week_jan6 + int 0) 16 0" and ?e = "dt (start_date week_jan6 + int 0) 18 0"
  let ?ml = "EventsList ?s ?e ''Marketing & Outreach''"
  have r4: "fst (delete_failing_service ?ml (remote ?m)) = Inr (Items [marketing_old])" by code_simp
  have i4: "get_items (Items [marketing_old]) = [] @ marketing_old # []" by (simp add: get_items_def)
  have d4: "delete_listed delete_failing_service [] (snd (request delete_failing_service ?ml ?m))
      = (Inr (), snd (request delete_failing_service ?ml ?m))" by simp
  have t4: "lower (get_summary marketing_old) = ''marketing & outreach''" by code_simp
  have x4: "fst (delete_failing_service (EventsDelete (ev_id marketing_old))
      (remote (snd (request delete_failing_service ?ml ?m)))) = Inl (HttpError 500)" by code_simp
  have h4: "delete_existing_marketing_events delete_failing_service ?s ?e ?m
      = (Inl (HttpError 500), snd (request delete_failing_service (EventsDelete (ev_id marketing_old))
           (snd (request delete_failing_service ?ml ?m))))"
    by (rule T [where svc = delete_failing_service and s = ?s and e = ?e and w = ?m
        and listed = "Items [marketing_old]" and handled = "[]" and event = marketing_old
        and todo = "[]" and ?w1.0 = "snd (request delete_failing_service ?ml ?m)"
        and err = "HttpError 500", THEN conjunct2, THEN conjunct2, THEN conjunct2, THEN conjunct2, THEN conjunct2, THEN conjunct2, THEN conjunct1, THEN mp, OF conjI [OF r4 conjI [OF i4 conjI [OF d4 conjI [OF t4 x4]]]]])
  have w4: "main_marketing_weeks delete_failing_service [] ?m = (Inr (), ?m)" by simp
  have n4: "day_names = [] @ (0, ''Mon'') # enumerate 1 [''Tue'', ''Wed'', ''Thu'', ''Fri'']"
    by (simp add: day_names_def)
  have dd4: "main_marketing_days delete_failing_service week_jan6 [] ?m = (Inr (), ?m)" by simp
  have run4: "main_marketing delete_failing_service ([] @ week_jan6 # [week_jan6]) ?m
      = (Inl (HttpError 500), snd (request delete_failing_service (EventsDelete (ev_id marketing_old))
           (snd (request delete_failing_service ?ml ?m))))"
    by (rule T [where svc = delete_failing_service and weeks = "[]" and w = ?m and ?w0.0 = ?m
        and days_done = "[]" and i = 0 and day_name = "''Mon''"
        and days_todo = "enumerate 1 [''Tue'', ''Wed'', ''Thu'', ''Fri'']"
        and week_data = week_jan6 and ?w1.0 = ?m and err = "HttpError 500"
        and ?w2.0 = "snd (request delete_failing_service (EventsDelete (ev_id marketing_old))
           (snd (request delete_failing_service ?ml ?m)))" and later = "[week_jan6]", THEN conjunct2, THEN conjunct2, THEN conjunct2, THEN conjunct2, THEN conjunct2, THEN conjunct2, THEN conjunct2, THEN conjunct2, THEN conjunct1, THEN mp, OF conjI [OF w4 conjI [OF n4 conjI [OF dd4 h4]]]])
  \<comment> \<open>Monday is replaced, the creation of Tuesday's event is rejected\<close>
  let ?mon = "main_marketing_days tuesday_failing_service week_jan6 [(0, ''Mon'')] ?m"
  have mon: "?mon = (Inr (), snd ?mon)" by (rule result_pair) code_simp
  let ?s5 = "dt (start_date week_jan6 + int 1) 16 0" and ?e5 = "dt (start_date week_jan6 + int 1) 18 0"
  let ?del = "delete_existing_marketing_events tuesday_failing_service ?s5 ?e5 (snd ?mon)"
  have del: "?del = (Inr (), snd ?del)" by (rule result_pair) code_simp
  let ?b5 = "EventsInsert \<lparr>body_summary = ''Marketing & Outreach'',
      body_description = marketing_description week_jan6 ''Tue'', body_start = ?s5,
      body_end = ?e5, body_time_zone = ''Europe/London''\<rparr>"
  have r5: "fst (tuesday_failing_service ?b5 (remote (snd ?del))) = Inl (HttpError 500)" by code_simp
  have c5: "create_event tuesday_failing_service ''Marketing & Outreach'' ?s5 ?e5
      (marketing_description week_jan6 ''Tue'') (snd ?del)
      = (Inl (HttpError 500), snd (request tuesday_failing_service ?b5 (snd ?del)))"
    by (rule T [where svc = tuesday_failing_service and summ = "''Marketing & Outreach''"
        and s = ?s5 and e = ?e5 and descr = "marketing_description week_jan6 ''Tue''"
        and w = "snd ?del" and err = "HttpError 500", THEN conjunct2, THEN conjunct2, THEN conjunct2, THEN conjunct2, THEN conjunct2, THEN conjunct2, THEN conjunct2, THEN conjunct1, THEN mp, OF r5])
  have w5: "main_marketing_weeks tuesday_failing_service [] ?m = (Inr (), ?m)" by simp
  have n5: "day_names = [(0, ''Mon'')] @ (1, ''Tue'') # enumerate 2 [''Wed'', ''Thu'', ''Fri'']"
    by (simp add: day_names_def)
  have run5: "main_marketing tuesday_failing_service ([] @ week_jan6 # [week_jan6]) ?m
      = (Inl (HttpError 500), snd (request tuesday_failing_service ?b5 (snd ?del)))"
    by (rule T [where svc = tuesday_failing_service and weeks = "[]" and w = ?m and ?w0.0 = ?m
        and days_done = "[(0, ''Mon'')]" and i = 1 and day_name = "''Tue''"
        and days_todo = "enumerate 2 [''Wed'', ''Thu'', ''Fri'']"
        and week_data = week_jan6 and ?w1.0 = "snd ?mon" and ?w2.0 = "snd ?del"
        and err = "HttpError 500"
        and ?w3.0 = "snd (request tuesday_failing_service ?b5 (snd ?del))" and later = "[week_jan6]", THEN conjunct2, THEN conjunct2, THEN conjunct2, THEN conjunct2, THEN conjunct2, THEN conjunct2, THEN conjunct2, THEN conjunct2, THEN conjunct2, THEN mp, OF conjI [OF w5 conjI [OF n5 conjI [OF mon conjI [OF del c5]]]]])
  from r1 run1 r2 run2 run3 run4 run5 show ?thesis by simp
qed

text \<open>
  C6 as stated fails: when the creation of one event is rejected, the run ends with the
  error; no other event of the schedule is created and nothing is printed.
\<close>

theorem partial_failure_counterexample:
  "fst (main_jan_2025 create_failing_service [day_jan6, day_jan7] (world_of []))
     = Inl (HttpError 500)
   \<and> events (remote (snd (main_jan_2025 create_failing_service [day_jan6, day_jan7] (world_of [])))) = []
   \<and> printed (snd (main_jan_2025 create_failing_service [day_jan6, day_jan7] (world_of []))) = []"
  by code_simp

text \<open>Requests only ever extend the record of calls, and every error comes from the service.\<close>

lemma request_calls: "calls (snd (request svc c w)) = calls w @ [c]"
  by (simp add: request_def split: prod.splits)

lemma request_error: "fst (request svc c w) = Inl err \<Longrightarrow> \<exists>c st. fst (svc c st) = Inl err"
  by (auto simp: request_def split: prod.splits) (metis fst_conv)

lemma handle_block_calls:
  "\<exists>cs. calls (snd (handle_block svc summ s e d w)) = calls w @ EventsList s e summ # cs"
  by (auto simp: handle_block_def find_event_by_summary_in_range_def update_event_description_def
      create_event_def request_def print_def split: prod.splits sum.splits option.splits)

lemma handle_block_error:
  "fst (handle_block svc summ s e d w) = Inl err \<Longrightarrow> \<exists>c st. fst (svc c st) = Inl err"
  by (auto simp: handle_block_def find_event_by_summary_in_range_def update_event_description_def
      create_event_def request_def print_def split: prod.splits sum.splits option.splits)
     (metis fst_conv)+

lemma main_jan_loop_calls: "\<exists>cs. calls (snd (main_jan_loop svc sch w)) = calls w @ cs"
proof (induction sch arbitrary: w)
  case Nil
  then show ?case by simp
next
  case (Cons d rest)
  obtain r1 w1 where h1: "handle_block svc (block1_title d) (dt (date d) 8 0) (dt (date d) 10 0)
      (block1_desc d) w = (r1, w1)" by (cases "handle_block svc (block1_title d) (dt (date d) 8 0) (dt (date d) 10 0)
      (block1_desc d) w")
  obtain r2 w2 where h2: "handle_block svc (block2_title d) (dt (date d) 10 30) (dt (date d) 12 30)
      (block2_desc d) w1 = (r2, w2)" by (cases "handle_block svc (block2_title d) (dt (date d) 10 30) (dt (date d) 12 30)
      (block2_desc d) w1")
  from handle_block_calls [of svc "block1_title d" "dt (date d) 8 0" "dt (date d) 10 0" "block1_desc d" w] h1
  obtain cs1 where c1: "calls w1 = calls w @ cs1" by auto
  from handle_block_calls [of svc "block2_title d" "dt (date d) 10 30" "dt (date d) 12 30" "block2_desc d" w1] h2
  obtain cs2 where c2: "calls w2 = calls w1 @ cs2" by auto
  from Cons.IH [of w2] obtain cs3 where c3: "calls (snd (main_jan_loop svc rest w2)) = calls w2 @ cs3"
    by auto
  show ?case using h1 h2 c1 c2 c3 by (auto split: sum.splits)
qed

lemma main_jan_loop_error:
  "fst (main_jan_loop svc sch w) = Inl err \<Longrightarrow> \<exists>c st. fst (svc c st) = Inl err"
proof (induction sch arbitrary: w)
  case Nil
  then show ?case by simp
next
  case (Cons d rest)
  then show ?case
    by (auto split: prod.splits sum.splits dest: handle_block_error) (metis fst_conv handle_block_error)+
qed

text \<open>
  C7 (as amended). The script validates nothing: whatever the first entry of the schedule
  holds (an empty title, a date that occurs twice), the run starts by sending the list
  request for its first block, and every error a run ends with is one that the service
  raised for a request; there is no validation error.
\<close>

theorem no_validation_before_requests:
  "(\<exists>cs. calls (snd (main_jan_2025 svc (day_info # rest) w))
            = calls w @ EventsList (dt (date day_info) 8 0) (dt (date day_info) 10 0)
                          (block1_title day_info) # cs)
   \<and> (fst (main_jan_2025 svc SCHEDULE w) = Inl err \<longrightarrow> (\<exists>c st. fst (svc c st) = Inl err))"
proof
  obtain r1 w1 where h1: "handle_block svc (block1_title day_info) (dt (date day_info) 8 0)
      (dt (date day_info) 10 0) (block1_desc day_info) w = (r1, w1)"
    by (cases "handle_block svc (block1_title day_info) (dt (date day_info) 8 0)
      (dt (date day_info) 10 0) (block1_desc day_info) w")
  obtain r2 w2 where h2: "handle_block svc (block2_title day_info) (dt (date day_info) 10 30)
      (dt (date day_info) 12 30) (block2_desc day_info) w1 = (r2, w2)"
    by (cases "handle_block svc (block2_title day_info) (dt (date day_info) 10 30)
      (dt (date day_info) 12 30) (block2_desc day_info) w1")
  from handle_block_calls [of svc "block1_title day_info" "dt (date day_info) 8 0"
      "dt (date day_info) 10 0" "block1_desc day_info" w] h1
  obtain cs1 where c1: "calls w1 = calls w @ EventsList (dt (date day_info) 8 0)
      (dt (date day_info) 10 0) (block1_title day_info) # cs1" by auto
  from handle_block_calls [of svc "block2_title day_info" "dt (date day_info) 10 30"
      "dt (date day_info) 12 30" "block2_desc day_info" w1] h2
  obtain cs2 where c2: "calls w2 = calls w1 @ cs2" by auto
  from main_jan_loop_calls [of svc rest w2]
  obtain cs3 where c3: "calls (snd (main_jan_loop svc rest w2)) = calls w2 @ cs3" by auto
  show "\<exists>cs. calls (snd (main_jan_2025 svc (day_info # rest) w))
            = calls w @ EventsList (dt (date day_info) 8 0) (dt (date day_info) 10 0)
                          (block1_title day_info) # cs"
    using h1 h2 c1 c2 c3
    by (auto simp: main_jan_2025_def print_def split: sum.splits prod.splits)
next
  show "fst (main_jan_2025 svc SCHEDULE w) = Inl err \<longrightarrow> (\<exists>c st. fst (svc c st) = Inl err)"
    using main_jan_loop_error [of svc SCHEDULE w err]
    by (auto simp: main_jan_2025_def split: sum.splits prod.splits)
qed

theorem no_validation_before_requests_witness:
  "fst (main_jan_2025 create_failing_service [day_jan6, day_jan7] (world_of [])) = Inl (HttpError 500)
   \<and> (\<exists>c st. fst (create_failing_service c st) = Inl (HttpError 500))"
proof -
  have "fst (main_jan_2025 create_failing_service [day_jan6, day_jan7] (world_of [])) = Inl (HttpError 500)"
    by code_simp
  with no_validation_before_requests [of create_failing_service _ _ "world_of []"
      "[day_jan6, day_jan7]" "HttpError 500"]
  show ?thesis by blast
qed

text \<open>
  C7 as stated fails: a schedule whose first block has an empty title is processed like
  any other. The run completes, four requests are sent, and the calendar gains an event
  without a title.
\<close>

theorem validation_counterexample:
  "block1_title untitled_day = []
   \<and> fst (main_jan_2025 plain_service [untitled_day] (world_of [])) = Inr ()
   \<and> calls (snd (main_jan_2025 plain_service [untitled_day] (world_of [])))
       = [EventsList (dt jan6 8 0) (dt jan6 10 0) [],
          EventsInsert \<lparr>body_summary = [], body_description = ''X'',
            body_start = dt jan6 8 0, body_end = dt jan6 10 0, body_time_zone = ''Europe/London''\<rparr>,
          EventsList (dt jan6 10 30) (dt jan6 12 30) ''Deep Work Block 2'',
          EventsInsert \<lparr>body_summary = ''Deep Work Block 2'', body_description = ''Z'',
            body_start = dt jan6 10 30, body_end = dt jan6 12 30, body_time_zone = ''Europe/London''\<rparr>]
   \<and> map summary (events (remote (snd (main_jan_2025 plain_service [untitled_day] (world_of [])))))
       = [Some [], Some ''Deep Work Block 2'']"
  by code_simp

section \<open>Business days\<close>











section \<open>Termination and coverage\<close>






section \<open>Expansion\<close>








section \<open>Replace\<close>









end
